theory Spec2Isabelle
  imports Main "HOL-Library.Sublist"
begin

section \<open>The esbuild request adapter of packages/vite/src/esbuild-request.ts\<close>

text \<open>
  The module holds a process-wide status channel (a JavaScript \<open>Map\<close> stored on
  \<open>globalThis\<close>), three functions on it (\<open>requestStatus\<close>, \<open>writeStatus\<close>,
  \<open>readStatus\<close>) and the class \<open>EsBuildRequestAdapter\<close> with its factory \<open>create\<close>
  and the methods \<open>notFoundResponse\<close> and \<open>resolve\<close>.

  The embedding passes the global explicitly. Everything the module imports from other
  packages (\<open>cleanUrl\<close>, \<open>packageName\<close>, \<open>externalName\<close>, node's \<open>dirname\<close>, the
  platform test, esbuild's \<open>build.resolve\<close>, the package cache) is a parameter. The
  getter \<open>debugType\<close> and the method \<open>virtualResponse\<close> take no part in the properties
  below and are left out.
\<close>

subsection \<open>The status channel\<close>

text \<open>
  \<^verbatim>\<open>type InternalStatus = { type: 'pending' } | { type: 'not_found' }
                     | { type: 'found'; filename: string }\<close>
\<close>

datatype InternalStatus = Pending | StatusNotFound | StatusFound string

type_synonym channel = "string \<rightharpoonup> InternalStatus"

text \<open>
  The property \<open>globalThis.__embroider_vite_resolver_channel__\<close>: \<open>None\<close> while it is
  undefined, \<open>Some ch\<close> once the map has been created.
\<close>

type_synonym global = "channel option"

text \<open>
  \<open>sharedGlobalState\<close> returns the channel, creating an empty one when there is none yet.
  The result pairs the channel with the global as the call leaves it.
\<close>

definition sharedGlobalState :: "global \<Rightarrow> channel \<times> global" where
  "sharedGlobalState g =
     (case g of
        None \<Rightarrow> (Map.empty, Some Map.empty)
      | Some channel \<Rightarrow> (channel, Some channel))"

text \<open>\<open>sharedGlobalState().set(id, { type: 'pending' })\<close>; the map is mutated in place.\<close>

definition requestStatus :: "global \<Rightarrow> string \<Rightarrow> global" where
  "requestStatus g id' =
     (let (channel, g1) = sharedGlobalState g
      in Some (channel(id' \<mapsto> Pending)))"

text \<open>
  \<open>if (channel.get(id)?.type === 'pending') channel.set(id, status)\<close>. An absent id gives
  \<open>undefined\<close>, which is not \<open>'pending'\<close>.
\<close>

definition writeStatus :: "global \<Rightarrow> string \<Rightarrow> InternalStatus \<Rightarrow> global" where
  "writeStatus g id' status =
     (let (channel, g1) = sharedGlobalState g
      in if channel id' = Some Pending then Some (channel(id' \<mapsto> status)) else g1)"

text \<open>
  \<open>let result = channel.get(id) ?? { type: 'pending' }; channel.delete(id); return result\<close>.
\<close>

definition readStatus :: "global \<Rightarrow> string \<Rightarrow> InternalStatus \<times> global" where
  "readStatus g id' =
     (let (channel, g1) = sharedGlobalState g;
          result = (case channel id' of None \<Rightarrow> Pending | Some s \<Rightarrow> s)
      in (result, Some (channel(id' := None))))"

text \<open>The ledger a global stands for: the map every access of the module works on.\<close>

definition ledger :: "global \<Rightarrow> channel" where
  "ledger g = fst (sharedGlobalState g)"

subsection \<open>Host and resolution types\<close>

text \<open>
  esbuild's \<open>Message\<close>; only \<open>text\<close> is written by this module.
\<close>

datatype Message = Message string

text \<open>
  The value \<open>build.resolve\<close> fulfils with (esbuild's \<open>ResolveResult\<close>). The module reads
  \<open>errors\<close>, \<open>path\<close>, \<open>external\<close> and \<open>namespace\<close>; \<open>other\<close> stands for the remaining
  fields, which it never inspects.
\<close>

record 'o ResolveResult =
  errors :: "Message list"
  path :: string
  external :: bool
  namespace :: string
  other :: 'o

text \<open>
  esbuild's \<open>OnResolveResult\<close>, the result type of \<open>Resolution\<close>: every field is optional
  (\<open>None\<close> is a field that is not set).
\<close>

record 'o OnResolveResult =
  errors :: "Message list option"
  path :: "string option"
  external :: "bool option"
  namespace :: "string option"
  other :: "'o option"

text \<open>A \<open>ResolveResult\<close> object used where an \<open>OnResolveResult\<close> is expected: the same fields, all set.\<close>

definition asOnResolveResult :: "'o ResolveResult \<Rightarrow> 'o OnResolveResult" where
  "asOnResolveResult r =
     \<lparr> errors = Some (ResolveResult.errors r),
       path = Some (ResolveResult.path r),
       external = Some (ResolveResult.external r),
       namespace = Some (ResolveResult.namespace r),
       other = Some (ResolveResult.other r) \<rparr>"

datatype VirtualResponse = VirtualResponse string

text \<open>
  \<open>Resolution<OnResolveResult, OnResolveResult>\<close>. In \<open>Found\<close>, \<open>virtual\<close> is
  \<open>VirtualResponse | false\<close>; \<open>None\<close> is \<open>false\<close>.
\<close>

datatype 'o Resolution =
    NotFound (err: "'o OnResolveResult")
  | Found (filename: string) (result: "'o OnResolveResult") (virtual: "VirtualResponse option")

datatype Phase = Bundling | Other

text \<open>
  The \<open>embroider\<close> entry of a call's \<open>pluginData\<close>, and \<open>pluginData\<close> itself. The source
  types \<open>pluginData\<close> as \<open>Record<string, any> | undefined\<close>; the only writer of the flag
  in this module (line 99) stores the boolean \<open>false\<close>, and the model takes the flag as
  an optional boolean. \<open>None\<close> is a field that is not set.
\<close>

record 'meta EmbroiderData =
  enableCustomResolver :: "bool option"
  meta :: "'meta option"

record 'meta PluginData =
  embroider :: "'meta EmbroiderData option"

record 'meta ModuleRequest =
  specifier :: string
  fromFile :: string
  meta :: "'meta option"

text \<open>The second argument of \<open>build.resolve\<close>.\<close>

record ('k, 'meta) ResolveOptions =
  importer :: string
  resolveDir :: string
  kind :: 'k
  pluginData :: "'meta PluginData"

text \<open>
  A call of \<open>build.resolve\<close> is awaited. While it runs, other code (the cooperating rollup
  resolver, other resolve calls) works on the global, so the call is a function of the
  global it starts in and gives the global it ends in. The promise either fulfils with
  a \<open>ResolveResult\<close> (\<open>Inr\<close>) or rejects (\<open>Inl\<close>).
\<close>

datatype HostFailure = Rejected string

type_synonym ('k, 'meta, 'o) hostResolve =
  "string \<Rightarrow> ('k, 'meta) ResolveOptions \<Rightarrow> global \<Rightarrow> (HostFailure + 'o ResolveResult) \<times> global"

text \<open>The package cache: \<open>ownerOfFile\<close> and \<open>appRoot\<close>. A package has a root and its package.json.\<close>

record 'm Package =
  root :: string
  packageJSON :: 'm

record 'm PackageCache =
  ownerOfFile :: "string \<Rightarrow> 'm Package option"
  appRoot :: string

text \<open>
  The adapter's private fields. The field \<open>context\<close> (the \<open>PluginBuild\<close>) is used only
  through \<open>context.resolve\<close>, so the record holds that function.
\<close>

record ('k, 'meta, 'o, 'm) Adapter =
  packageCache :: "'m PackageCache"
  phase :: Phase
  contextResolve :: "('k, 'meta, 'o) hostResolve"
  kind :: 'k

text \<open>
  What the module imports: \<open>cleanUrl\<close> and \<open>packageName\<close> of @embroider/core,
  \<open>externalName\<close> of @embroider/reverse-exports, \<open>dirname\<close> of node's path module, and
  whether \<open>process.platform\<close> is \<open>'win32'\<close>. \<open>packageName\<close> and \<open>externalName\<close> return
  \<open>string | undefined\<close>.
\<close>

record 'm Imports =
  cleanUrl :: "string \<Rightarrow> string"
  packageName :: "string \<Rightarrow> string option"
  externalName :: "'m \<Rightarrow> string \<Rightarrow> string option"
  dirname :: "string \<Rightarrow> string"
  win32 :: bool

text \<open>JavaScript truthiness of a \<open>string | undefined\<close>: \<open>undefined\<close> and the empty string are falsy.\<close>

definition truthy :: "string option \<Rightarrow> bool" where
  "truthy v = (case v of None \<Rightarrow> False | Some s \<Rightarrow> s \<noteq> [])"

text \<open>\<open>a || b\<close> for \<open>a : string | undefined\<close> and \<open>b : string\<close>.\<close>

definition orElse :: "string option \<Rightarrow> string \<Rightarrow> string" where
  "orElse a b = (case a of None \<Rightarrow> b | Some s \<Rightarrow> if s \<noteq> [] then s else b)"

subsection \<open>The factory\<close>




subsection \<open>The responders and resolve\<close>

text \<open>
  \<open>notFoundResponse\<close>: \<open>{ type: 'not_found', err: { errors: [{ text: ... }] } }\<close>. The
  method reads its argument only; it takes no global and no host.
\<close>

definition notFoundResponse :: "'meta ModuleRequest \<Rightarrow> 'o Resolution" where
  "notFoundResponse request =
     NotFound
       \<lparr> errors = Some [Message (''module not found '' @ specifier request)],
         path = None, external = None, namespace = None, other = None \<rparr>"

text \<open>
  The test that guards the externalizing \<open>return\<close> of \<open>resolve\<close> (lines 110 and 117 to
  125): the phase is \<open>'bundling'\<close>, the owner of the host's path has the app's root, and
  the host's namespace is \<open>'file'\<close> or starts with \<open>'embroider-'\<close>.
\<close>

definition appBoundaryFires :: "('k, 'meta, 'o, 'm) Adapter \<Rightarrow> 'o ResolveResult \<Rightarrow> bool" where
  "appBoundaryFires this result' =
     (phase this = Bundling
      \<and> (case ownerOfFile (packageCache this) (ResolveResult.path result') of
            None \<Rightarrow> False
          | Some pkg \<Rightarrow> root pkg = appRoot (packageCache this))
      \<and> (ResolveResult.namespace result' = ''file''
           \<or> prefix ''embroider-'' (ResolveResult.namespace result')))"

text \<open>The synthetic result of that \<open>return\<close>: \<open>{ path: externalizedName, external: true }\<close>.\<close>

definition externalizedResult :: "string \<Rightarrow> 'o OnResolveResult" where
  "externalizedResult externalizedName =
     \<lparr> errors = None, path = Some externalizedName, external = Some True,
       namespace = None, other = None \<rparr>"

text \<open>
  Lines 117 to 149 of \<open>resolve\<close>, the body of \<open>if (this.phase === 'bundling')\<close>: \<open>Some\<close> is
  the \<open>return\<close> inside it, \<open>None\<close> is leaving the block without returning. With \<open>pkg\<close>
  undefined, \<open>pkg?.root === appRoot\<close> compares \<open>undefined\<close> with a string and is false.
\<close>

definition bundlingBlock ::
  "'m Imports \<Rightarrow> ('k, 'meta, 'o, 'm) Adapter \<Rightarrow> 'meta ModuleRequest \<Rightarrow> 'o ResolveResult \<Rightarrow>
   'o Resolution option" where
  "bundlingBlock imports this request result' =
     (case ownerOfFile (packageCache this) (ResolveResult.path result') of
        None \<Rightarrow> None
      | Some pkg \<Rightarrow>
          if root pkg = appRoot (packageCache this)
             \<and> (ResolveResult.namespace result' = ''file''
                  \<or> prefix ''embroider-'' (ResolveResult.namespace result'))
          then
            (let externalizedName0 = specifier request;
                 externalizedName =
                   (if \<not> truthy (packageName imports externalizedName0)
                    then orElse (externalName imports (packageJSON pkg) externalizedName0)
                           externalizedName0
                    else externalizedName0)
             in Some (Found externalizedName (externalizedResult externalizedName) None))
          else None)"

text \<open>The options object \<open>resolve\<close> passes to \<open>this.context.resolve\<close> (lines 94 to 102).\<close>

definition resolveOptions ::
  "'m Imports \<Rightarrow> ('k, 'meta, 'o, 'm) Adapter \<Rightarrow> 'meta ModuleRequest \<Rightarrow> ('k, 'meta) ResolveOptions" where
  "resolveOptions imports this request =
     \<lparr> importer = fromFile request,
       resolveDir = dirname imports (fromFile request),
       kind = Adapter.kind this,
       pluginData =
         \<lparr> embroider =
             Some \<lparr> enableCustomResolver = Some False,
                    meta = ModuleRequest.meta request \<rparr> \<rparr> \<rparr>"

text \<open>
  \<open>resolve\<close>. The global is threaded through \<open>requestStatus\<close>, the awaited host call and
  \<open>readStatus\<close>. A rejected host promise makes the \<open>await\<close> throw; the method has no
  handler, so its own promise rejects with the same failure (\<open>Inl\<close>) and \<open>readStatus\<close> is
  not reached.
\<close>

definition resolve ::
  "'m Imports \<Rightarrow> ('k, 'meta, 'o, 'm) Adapter \<Rightarrow> 'meta ModuleRequest \<Rightarrow> global \<Rightarrow>
   (HostFailure + 'o Resolution) \<times> global" where
  "resolve imports this request g =
     (let g1 = requestStatus g (specifier request);
          (awaited, g2) =
             contextResolve this (specifier request) (resolveOptions imports this request) g1
      in case awaited of
           Inl failure \<Rightarrow> (Inl failure, g2)
         | Inr result' \<Rightarrow>
             (let (status, g3) = readStatus g2 (specifier request)
              in if length (ResolveResult.errors result') > 0 \<or> status = StatusNotFound
                 then (Inr (NotFound (asOnResolveResult result')), g3)
                 else
                   (case (if phase this = Bundling
                          then bundlingBlock imports this request result'
                          else None) of
                      Some returned \<Rightarrow> (Inr returned, g3)
                    | None \<Rightarrow>
                        (let filename' =
                               (case status of
                                  StatusFound statusFilename \<Rightarrow>
                                    if ResolveResult.external result' then statusFilename
                                    else ResolveResult.path result'
                                | _ \<Rightarrow> ResolveResult.path result')
                         in (Inr (Found filename' (asOnResolveResult result') None), g3)))))"

subsection \<open>A concrete build\<close>

text \<open>
  An application \<open>my-app\<close> rooted at \<open>/app\<close> with the dependency \<open>lodash\<close>, a few host
  resolvers, and instances of the imported functions. The manifest of a package is its
  name; \<open>kind\<close> is a string; there is no \<open>meta\<close> and no further host field.
\<close>

definition exPackageName :: "string \<Rightarrow> string option" where
  "exPackageName s =
     (if s = [] \<or> prefix ''.'' s \<or> prefix ''/'' s then None
      else Some (takeWhile (\<lambda>c. c \<noteq> CHR ''/'') s))"

definition exExternalName :: "string \<Rightarrow> string \<Rightarrow> string option" where
  "exExternalName name s = (if prefix ''./'' s then Some (name @ ''/'' @ drop 2 s) else None)"

definition exImports :: "string Imports" where
  "exImports =
     \<lparr> cleanUrl = takeWhile (\<lambda>c. c \<noteq> CHR ''?'' \<and> c \<noteq> CHR ''#''),
       packageName = exPackageName,
       externalName = exExternalName,
       dirname = (\<lambda>s. rev (drop 1 (dropWhile (\<lambda>c. c \<noteq> CHR ''/'') (rev s)))),
       win32 = False \<rparr>"

definition exAppPackage :: "string Package" where
  "exAppPackage = \<lparr> root = ''/app'', packageJSON = ''my-app'' \<rparr>"

definition exOwnerOfFile :: "string \<Rightarrow> string Package option" where
  "exOwnerOfFile file =
     (if prefix ''/app/node_modules/lodash/'' file
      then Some \<lparr> root = ''/app/node_modules/lodash'', packageJSON = ''lodash'' \<rparr>
      else if prefix ''/app/'' file
      then Some exAppPackage
      else None)"

definition exCache :: "string PackageCache" where
  "exCache = \<lparr> ownerOfFile = exOwnerOfFile, appRoot = ''/app'' \<rparr>"

text \<open>An error-free host result in the \<open>file\<close> namespace.\<close>

definition exHostResult :: "string \<Rightarrow> bool \<Rightarrow> unit ResolveResult" where
  "exHostResult path' external' =
     \<lparr> ResolveResult.errors = [], ResolveResult.path = path',
       ResolveResult.external = external', ResolveResult.namespace = ''file'',
       ResolveResult.other = () \<rparr>"

text \<open>The host resolves every specifier to \<open>/app/widgets/button.js\<close>; nothing is written to the ledger.\<close>

definition hostAppFile :: "(string, unit, unit) hostResolve" where
  "hostAppFile spec opts g = (Inr (exHostResult ''/app/widgets/button.js'' False), g)"

text \<open>
  The host resolves a specifier to itself (an absolute path that exists); nothing is
  written to the ledger.
\<close>

definition hostSamePath :: "(string, unit, unit) hostResolve" where
  "hostSamePath spec opts g = (Inr (exHostResult spec False), g)"

text \<open>
  During the host call the cooperating resolver finds the file and records it; the host
  reports the specifier as external.
\<close>

definition hostExternalFound :: "(string, unit, unit) hostResolve" where
  "hostExternalFound spec opts g =
     (Inr (exHostResult spec True),
      writeStatus g spec (StatusFound ''/app/node_modules/lodash/index.js''))"

text \<open>
  During the host call the cooperating resolver finds nothing and records that; the host
  reports the specifier as external, without errors.
\<close>

definition hostExternalMissing :: "(string, unit, unit) hostResolve" where
  "hostExternalMissing spec opts g =
     (Inr (exHostResult spec True), writeStatus g spec StatusNotFound)"

text \<open>The host reports an error.\<close>

definition exErrorResult :: "unit ResolveResult" where
  "exErrorResult =
     \<lparr> ResolveResult.errors = [Message ''Could not resolve''], ResolveResult.path = [],
       ResolveResult.external = False, ResolveResult.namespace = [],
       ResolveResult.other = () \<rparr>"

definition hostErrors :: "(string, unit, unit) hostResolve" where
  "hostErrors spec opts g = (Inr exErrorResult, g)"

text \<open>The promise of the host call rejects.\<close>

definition hostRejects :: "(string, unit, unit) hostResolve" where
  "hostRejects spec opts g = (Inl (Rejected ''The build was canceled''), g)"

definition exAdapter ::
  "Phase \<Rightarrow> (string, unit, unit) hostResolve \<Rightarrow> (string, unit, unit, string) Adapter" where
  "exAdapter phase' host =
     \<lparr> packageCache = exCache, phase = phase', contextResolve = host,
       kind = ''import-statement'' \<rparr>"

definition exRequest :: "string \<Rightarrow> unit ModuleRequest" where
  "exRequest spec =
     \<lparr> specifier = spec, fromFile = ''/app/node_modules/some-addon/index.js'', meta = None \<rparr>"

text \<open>
  A second instance of the lookup, on manifests with a name and an optional exports
  table (pairs of an export key and the file it points to). Without a table the name is
  joined with the path; with a table the lookup gives the name joined with the key whose
  file is the path, and nothing when no entry points to the path.
\<close>

record exManifest =
  manifestName :: string
  manifestExports :: "(string \<times> string) list option"

definition exJoin :: "string \<Rightarrow> string \<Rightarrow> string" where
  "exJoin name' p =
     name' @ ''/'' @ (if prefix ''./'' p then drop 2 p else if prefix ''/'' p then drop 1 p else p)"

definition exManifestExternalName :: "exManifest \<Rightarrow> string \<Rightarrow> string option" where
  "exManifestExternalName manifest p =
     (case manifestExports manifest of
        None \<Rightarrow> Some (exJoin (manifestName manifest) p)
      | Some table \<Rightarrow>
          (case List.find (\<lambda>entry. snd entry = p) table of
             None \<Rightarrow> None
           | Some entry \<Rightarrow> Some (exJoin (manifestName manifest) (fst entry))))"

definition exManifestImports :: "exManifest Imports" where
  "exManifestImports =
     \<lparr> cleanUrl = takeWhile (\<lambda>c. c \<noteq> CHR ''?'' \<and> c \<noteq> CHR ''#''),
       packageName = exPackageName,
       externalName = exManifestExternalName,
       dirname = (\<lambda>s. rev (drop 1 (dropWhile (\<lambda>c. c \<noteq> CHR ''/'') (rev s)))),
       win32 = False \<rparr>"

text \<open>The app's manifest with a name only, and with an exports table that lists the main entry.\<close>

definition exNameOnly :: exManifest where
  "exNameOnly = \<lparr> manifestName = ''my-app'', manifestExports = None \<rparr>"

definition exWithExports :: exManifest where
  "exWithExports =
     \<lparr> manifestName = ''my-app'', manifestExports = Some [(''.'', ''./index.js'')] \<rparr>"

definition exManifestPackage :: "exManifest \<Rightarrow> exManifest Package" where
  "exManifestPackage manifest = \<lparr> root = ''/app'', packageJSON = manifest \<rparr>"

definition exManifestCache :: "exManifest \<Rightarrow> exManifest PackageCache" where
  "exManifestCache manifest =
     \<lparr> ownerOfFile = (\<lambda>file. if prefix ''/app/'' file then Some (exManifestPackage manifest)
                            else None),
       appRoot = ''/app'' \<rparr>"

definition exManifestAdapter ::
  "exManifest \<Rightarrow> (string, unit, unit) hostResolve \<Rightarrow> (string, unit, unit, exManifest) Adapter" where
  "exManifestAdapter manifest host =
     \<lparr> packageCache = exManifestCache manifest, phase = Bundling, contextResolve = host,
       kind = ''import-statement'' \<rparr>"

section \<open>Properties\<close>

subsection \<open>Unfolding sets and the shape of resolve\<close>

lemmas eval_defs = resolve_def resolveOptions_def bundlingBlock_def asOnResolveResult_def
  truthy_def orElse_def externalizedResult_def appBoundaryFires_def notFoundResponse_def Let_def

lemmas ex_defs = exImports_def exPackageName_def exExternalName_def exAppPackage_def
  exOwnerOfFile_def exCache_def
  exAdapter_def exRequest_def exHostResult_def exErrorResult_def hostAppFile_def hostSamePath_def
  hostExternalFound_def hostExternalMissing_def hostErrors_def hostRejects_def

lemmas ledger_defs = sharedGlobalState_def requestStatus_def writeStatus_def readStatus_def
  ledger_def

lemmas manifest_defs = exJoin_def exManifestExternalName_def exManifestImports_def exNameOnly_def
  exWithExports_def exManifestPackage_def exManifestCache_def exManifestAdapter_def
  exPackageName_def exRequest_def exHostResult_def hostSamePath_def

lemma ledger_Some: "ledger (Some channel) = channel"
  by (simp add: ledger_def sharedGlobalState_def)

lemma ledger_None: "ledger None = Map.empty"
  by (simp add: ledger_def sharedGlobalState_def)

lemma requestStatus_eq: "requestStatus g i = Some ((ledger g)(i \<mapsto> Pending))"
  by (cases g) (simp_all add: ledger_defs)

lemma writeStatus_eq:
  "writeStatus g i status =
     Some (if ledger g i = Some Pending then (ledger g)(i \<mapsto> status) else ledger g)"
  by (cases g) (simp_all add: ledger_defs)

lemma readStatus_eq:
  "readStatus g i =
     (case ledger g i of None \<Rightarrow> Pending | Some s \<Rightarrow> s, Some ((ledger g)(i := None)))"
  by (cases g) (simp_all add: ledger_defs)

text \<open>A rejected host call: \<open>resolve\<close> rejects with the same failure and the global the call left.\<close>

lemma resolve_rejected:
  assumes "contextResolve this (specifier request) (resolveOptions imports this request)
             (requestStatus g (specifier request)) = (Inl failure, g2)"
  shows "resolve imports this request g = (Inl failure, g2)"
  using assms by (simp add: resolve_def)

text \<open>A fulfilled host call: what \<open>resolve\<close> returns, by the result and the consumed status.\<close>

lemma resolve_fulfilled:
  assumes "contextResolve this (specifier request) (resolveOptions imports this request)
             (requestStatus g (specifier request)) = (Inr r, g2)"
    and "readStatus g2 (specifier request) = (status, g3)"
  shows "resolve imports this request g =
     (if ResolveResult.errors r \<noteq> [] \<or> status = StatusNotFound
      then (Inr (NotFound (asOnResolveResult r)), g3)
      else
        (case (if phase this = Bundling then bundlingBlock imports this request r else None) of
           Some returned \<Rightarrow> (Inr returned, g3)
         | None \<Rightarrow>
             (Inr (Found
                     (case status of
                        StatusFound statusFilename \<Rightarrow>
                          if ResolveResult.external r then statusFilename
                          else ResolveResult.path r
                      | _ \<Rightarrow> ResolveResult.path r)
                     (asOnResolveResult r) None), g3)))"
  using assms by (simp add: resolve_def Let_def split: option.splits)

text \<open>The name the bundling block computes for a request whose target the package \<open>pkg\<close> owns.\<close>

lemma bundlingBlock_fires:
  assumes "ownerOfFile (packageCache this) (ResolveResult.path r) = Some pkg"
    and "appBoundaryFires this r"
  shows "bundlingBlock imports this request r =
     Some (Found
       (if truthy (packageName imports (specifier request)) then specifier request
        else orElse (externalName imports (packageJSON pkg) (specifier request))
               (specifier request))
       (externalizedResult
         (if truthy (packageName imports (specifier request)) then specifier request
          else orElse (externalName imports (packageJSON pkg) (specifier request))
                 (specifier request)))
       None)"
  using assms by (simp add: bundlingBlock_def appBoundaryFires_def Let_def)

lemma bundlingBlock_Some_iff:
  "(phase this = Bundling \<and> bundlingBlock imports this request r \<noteq> None)
     = appBoundaryFires this r"
  by (auto simp add: bundlingBlock_def appBoundaryFires_def Let_def split: option.splits)

lemma bundlingBlock_shape:
  assumes "bundlingBlock imports this request r = Some returned"
  shows "\<exists>n. returned = Found n (externalizedResult n) None"
  using assms
  by (auto simp add: bundlingBlock_def Let_def split: option.splits if_splits)

lemma asOnResolveResult_not_externalized: "asOnResolveResult r \<noteq> externalizedResult n"
  by (simp add: asOnResolveResult_def externalizedResult_def)

lemma exHostResult_fields:
  "ResolveResult.errors (exHostResult p e) = []"
  "ResolveResult.path (exHostResult p e) = p"
  "ResolveResult.external (exHostResult p e) = e"
  "ResolveResult.namespace (exHostResult p e) = ''file''"
  by (simp_all add: exHostResult_def)

lemma specifier_exRequest: "specifier (exRequest spec) = spec"
  by (simp add: exRequest_def)

subsection \<open>The status ledger\<close>

text \<open>
  Claim C3. For every id, calling \<open>readStatus\<close> twice in succession with no write in
  between returns \<open>Pending\<close> on the second call: the first call deletes the entry (the id
  is absent from the ledger after it), and \<open>readStatus\<close> returns the current value of
  the id, \<open>Pending\<close> when the id is absent.
\<close>

theorem readStatus_single_consumption:
  "ledger (snd (readStatus g i)) i = None
   \<and> fst (readStatus (snd (readStatus g i)) i) = Pending
   \<and> fst (readStatus g i) = (case ledger g i of None \<Rightarrow> Pending | Some s \<Rightarrow> s)"
  by (simp add: readStatus_eq ledger_Some)

text \<open>
  Claim C4, as amended. \<open>writeStatus(id, status)\<close> changes the ledger only when the
  current value for id is \<open>Pending\<close>, and then only at id; when the current value is
  \<open>Found\<close>, \<open>NotFound\<close> or absent, the ledger is unchanged. When the value for id is
  \<open>Pending\<close> at the first write, \<open>writeStatus(id, Found f)\<close> followed by
  \<open>writeStatus(id, NotFound)\<close> with no read in between leaves \<open>Found f\<close> to be
  returned by \<open>readStatus(id)\<close>.
\<close>

theorem writeStatus_only_when_pending:
  "writeStatus g i status =
     Some (if ledger g i = Some Pending then (ledger g)(i \<mapsto> status) else ledger g)
   \<and> (ledger g i \<noteq> Some Pending \<longrightarrow> ledger (writeStatus g i status) = ledger g)
   \<and> (ledger g i = Some Pending \<longrightarrow>
        fst (readStatus (writeStatus (writeStatus g i (StatusFound f)) i StatusNotFound) i)
          = StatusFound f)"
  by (simp add: writeStatus_eq readStatus_eq ledger_Some)

text \<open>
  The amended claim after \<open>requestStatus\<close> on a fresh process, and a write to an id that
  holds \<open>NotFound\<close> already.
\<close>

theorem writeStatus_only_when_pending_witness:
  "ledger (requestStatus None ''lodash'') ''lodash'' = Some Pending
   \<and> fst (readStatus
            (writeStatus
               (writeStatus (requestStatus None ''lodash'') ''lodash''
                  (StatusFound ''/app/node_modules/lodash/index.js''))
               ''lodash'' StatusNotFound)
            ''lodash'')
       = StatusFound ''/app/node_modules/lodash/index.js''
   \<and> ledger (Some [''lodash'' \<mapsto> StatusNotFound]) ''lodash'' \<noteq> Some Pending
   \<and> ledger (writeStatus (Some [''lodash'' \<mapsto> StatusNotFound]) ''lodash''
                (StatusFound ''/app/node_modules/lodash/index.js''))
       = ledger (Some [''lodash'' \<mapsto> StatusNotFound])"
proof -
  have pending: "ledger (requestStatus None ''lodash'') ''lodash'' = Some Pending"
    by (simp add: requestStatus_eq ledger_Some)
  have settled: "ledger (Some [''lodash'' \<mapsto> StatusNotFound]) ''lodash'' \<noteq> Some Pending"
    by (simp add: ledger_Some)
  from pending
    writeStatus_only_when_pending
      [of "requestStatus None ''lodash''" "''lodash''" Pending
          "''/app/node_modules/lodash/index.js''"]
  have first_wins:
    "fst (readStatus
            (writeStatus
               (writeStatus (requestStatus None ''lodash'') ''lodash''
                  (StatusFound ''/app/node_modules/lodash/index.js''))
               ''lodash'' StatusNotFound)
            ''lodash'')
       = StatusFound ''/app/node_modules/lodash/index.js''"
    by blast
  from settled
    writeStatus_only_when_pending
      [of "Some [''lodash'' \<mapsto> StatusNotFound]" "''lodash''"
          "StatusFound ''/app/node_modules/lodash/index.js''" "[]"]
  have unchanged:
    "ledger (writeStatus (Some [''lodash'' \<mapsto> StatusNotFound]) ''lodash''
                (StatusFound ''/app/node_modules/lodash/index.js''))
       = ledger (Some [''lodash'' \<mapsto> StatusNotFound])"
    by blast
  from pending first_wins settled unchanged show ?thesis by blast
qed

text \<open>
  The claim as stated fails where the id is not \<open>Pending\<close> at the first write. On a
  fresh process (no channel yet, the id absent) neither write takes effect, and
  \<open>readStatus\<close> returns \<open>Pending\<close>, not the \<open>Found\<close> value written first.
\<close>

theorem writeStatus_first_found_counterexample:
  "ledger None ''lodash'' = None
   \<and> fst (readStatus
            (writeStatus
               (writeStatus None ''lodash'' (StatusFound ''/app/node_modules/lodash/index.js''))
               ''lodash'' StatusNotFound)
            ''lodash'')
       = Pending
   \<and> Pending \<noteq> StatusFound ''/app/node_modules/lodash/index.js''"
  by (simp add: ledger_defs)

subsection \<open>The factory\<close>



subsection \<open>The not-found responder\<close>

text \<open>
  Claim C9. For every request, \<open>notFoundResponse(request)\<close> is a \<open>NotFound\<close> resolution
  whose diagnostics hold exactly one message, the string \<open>module not found\<close>, a space,
  and the request's specifier. The method is a function of the request alone: it takes
  neither the host resolver nor the global that holds the ledger.
\<close>

theorem notFoundResponse_message:
  "\<exists>e. notFoundResponse request = NotFound e
       \<and> OnResolveResult.errors e = Some [Message (''module not found '' @ specifier request)]"
  by (simp add: notFoundResponse_def)

lemma notFoundResponse_lodash_foo:
  "err (notFoundResponse (exRequest ''lodash/foo'') :: unit Resolution)
     = \<lparr> errors = Some [Message ''module not found lodash/foo''], path = None,
         external = None, namespace = None, other = None \<rparr>"
  by (simp add: notFoundResponse_def exRequest_def)

subsection \<open>resolve: the not-found outcome\<close>

text \<open>
  Claim C5, as amended. For every \<open>resolve\<close> call whose host resolver call returns a
  result, \<open>resolve\<close> returns a resolution, and that resolution is \<open>NotFound\<close> if and only
  if the host result's errors list is non-empty or the consumed ledger status is
  \<open>not_found\<close>; the \<open>NotFound\<close> then carries the host result (with its errors) as
  diagnostics. \<open>resolve\<close> has no failure of its own; when the host resolver call itself
  fails (its promise rejects), \<open>resolve\<close> fails with that same failure.
\<close>

theorem resolve_not_found_iff:
  "(contextResolve this (specifier request) (resolveOptions imports this request)
      (requestStatus g (specifier request)) = (Inl failure, g2)
    \<longrightarrow> resolve imports this request g = (Inl failure, g2))
   \<and> (contextResolve this (specifier request) (resolveOptions imports this request)
        (requestStatus g (specifier request)) = (Inr r, g2')
      \<and> readStatus g2' (specifier request) = (status, g3)
      \<longrightarrow> (\<exists>resolution.
             resolve imports this request g = (Inr resolution, g3)
             \<and> ((\<exists>e. resolution = NotFound e)
                   = (ResolveResult.errors r \<noteq> [] \<or> status = StatusNotFound))
             \<and> (ResolveResult.errors r \<noteq> [] \<or> status = StatusNotFound
                  \<longrightarrow> resolution = NotFound (asOnResolveResult r))))"
proof (intro conjI impI)
  assume "contextResolve this (specifier request) (resolveOptions imports this request)
            (requestStatus g (specifier request)) = (Inl failure, g2)"
  then show "resolve imports this request g = (Inl failure, g2)"
    by (rule resolve_rejected)
next
  assume fulfilled:
    "contextResolve this (specifier request) (resolveOptions imports this request)
       (requestStatus g (specifier request)) = (Inr r, g2')
     \<and> readStatus g2' (specifier request) = (status, g3)"
  note shape = resolve_fulfilled [OF conjunct1 [OF fulfilled] conjunct2 [OF fulfilled]]
  show "\<exists>resolution.
          resolve imports this request g = (Inr resolution, g3)
          \<and> ((\<exists>e. resolution = NotFound e)
                = (ResolveResult.errors r \<noteq> [] \<or> status = StatusNotFound))
          \<and> (ResolveResult.errors r \<noteq> [] \<or> status = StatusNotFound
               \<longrightarrow> resolution = NotFound (asOnResolveResult r))"
  proof (cases "ResolveResult.errors r \<noteq> [] \<or> status = StatusNotFound")
    case True
    with shape show ?thesis by simp
  next
    case False
    show ?thesis
    proof (cases "if phase this = Bundling then bundlingBlock imports this request r else None")
      case None
      with shape False show ?thesis by simp
    next
      case (Some returned)
      then have "bundlingBlock imports this request r = Some returned"
        by (simp split: if_splits)
      then obtain n where "returned = Found n (externalizedResult n) None"
        using bundlingBlock_shape by blast
      with shape False Some show ?thesis by simp
    qed
  qed
qed

text \<open>
  Four calls: a rejecting host; a host that reports an error; a host without errors
  while the ledger says \<open>not_found\<close>; a host without errors and nothing in the ledger.
\<close>

theorem resolve_not_found_iff_witness:
  "resolve exImports (exAdapter Other hostRejects) (exRequest ''lodash'') None
     = (Inl (Rejected ''The build was canceled''), requestStatus None ''lodash'')
   \<and> resolve exImports (exAdapter Other hostErrors) (exRequest ''lodash'') None
     = (Inr (NotFound (asOnResolveResult exErrorResult)), Some Map.empty)
   \<and> resolve exImports (exAdapter Other hostExternalMissing) (exRequest ''lodash'') None
     = (Inr (NotFound (asOnResolveResult (exHostResult ''lodash'' True))), Some Map.empty)
   \<and> (\<exists>n res v. resolve exImports (exAdapter Other hostAppFile) (exRequest ''lodash'') None
                  = (Inr (Found n res v), Some Map.empty))"
proof -
  have rejects:
    "contextResolve (exAdapter Other hostRejects) (specifier (exRequest ''lodash''))
       (resolveOptions exImports (exAdapter Other hostRejects) (exRequest ''lodash''))
       (requestStatus None (specifier (exRequest ''lodash'')))
     = (Inl (Rejected ''The build was canceled''), requestStatus None ''lodash'')"
    by (simp add: ex_defs)
  have errors:
    "contextResolve (exAdapter Other hostErrors) (specifier (exRequest ''lodash''))
       (resolveOptions exImports (exAdapter Other hostErrors) (exRequest ''lodash''))
       (requestStatus None (specifier (exRequest ''lodash'')))
     = (Inr exErrorResult, requestStatus None ''lodash'')
     \<and> readStatus (requestStatus None ''lodash'') (specifier (exRequest ''lodash''))
       = (Pending, Some Map.empty)"
    by (simp add: ex_defs ledger_defs)
  have missing:
    "contextResolve (exAdapter Other hostExternalMissing) (specifier (exRequest ''lodash''))
       (resolveOptions exImports (exAdapter Other hostExternalMissing) (exRequest ''lodash''))
       (requestStatus None (specifier (exRequest ''lodash'')))
     = (Inr (exHostResult ''lodash'' True),
        writeStatus (requestStatus None ''lodash'') ''lodash'' StatusNotFound)
     \<and> readStatus (writeStatus (requestStatus None ''lodash'') ''lodash'' StatusNotFound)
         (specifier (exRequest ''lodash''))
       = (StatusNotFound, Some Map.empty)"
    by (simp add: ex_defs ledger_defs)
  have found:
    "contextResolve (exAdapter Other hostAppFile) (specifier (exRequest ''lodash''))
       (resolveOptions exImports (exAdapter Other hostAppFile) (exRequest ''lodash''))
       (requestStatus None (specifier (exRequest ''lodash'')))
     = (Inr (exHostResult ''/app/widgets/button.js'' False), requestStatus None ''lodash'')
     \<and> readStatus (requestStatus None ''lodash'') (specifier (exRequest ''lodash''))
       = (Pending, Some Map.empty)"
    by (simp add: ex_defs ledger_defs)
  have c1: "resolve exImports (exAdapter Other hostRejects) (exRequest ''lodash'') None
     = (Inl (Rejected ''The build was canceled''), requestStatus None ''lodash'')"
    using rejects resolve_not_found_iff
      [of "exAdapter Other hostRejects" "exRequest ''lodash''" exImports None
          "Rejected ''The build was canceled''" "requestStatus None ''lodash''"]
    by blast
  have c2: "resolve exImports (exAdapter Other hostErrors) (exRequest ''lodash'') None
     = (Inr (NotFound (asOnResolveResult exErrorResult)), Some Map.empty)"
    using errors resolve_not_found_iff
      [of "exAdapter Other hostErrors" "exRequest ''lodash''" exImports None _ _
          exErrorResult "requestStatus None ''lodash''" Pending "Some Map.empty"]
    by (auto simp add: exErrorResult_def)
  have c3: "resolve exImports (exAdapter Other hostExternalMissing) (exRequest ''lodash'') None
     = (Inr (NotFound (asOnResolveResult (exHostResult ''lodash'' True))), Some Map.empty)"
    using missing resolve_not_found_iff
      [of "exAdapter Other hostExternalMissing" "exRequest ''lodash''" exImports None _ _
          "exHostResult ''lodash'' True"
          "writeStatus (requestStatus None ''lodash'') ''lodash'' StatusNotFound"
          StatusNotFound "Some Map.empty"]
    by auto
  have c4: "\<exists>n res v. resolve exImports (exAdapter Other hostAppFile) (exRequest ''lodash'') None
                  = (Inr (Found n res v), Some Map.empty)"
  proof -
    from found resolve_not_found_iff
      [of "exAdapter Other hostAppFile" "exRequest ''lodash''" exImports None _ _
          "exHostResult ''/app/widgets/button.js'' False" "requestStatus None ''lodash''"
          Pending "Some Map.empty"]
    obtain resolution where
      r: "resolve exImports (exAdapter Other hostAppFile) (exRequest ''lodash'') None
            = (Inr resolution, Some Map.empty)"
      and nf: "(\<exists>e. resolution = NotFound e)
            = (ResolveResult.errors (exHostResult ''/app/widgets/button.js'' False) \<noteq> []
               \<or> Pending = StatusNotFound)"
      by blast
    from nf have "\<not> (\<exists>e. resolution = NotFound e)"
      by (simp add: exHostResult_def)
    then obtain n res v where "resolution = Found n res v"
      by (cases resolution) auto
    with r show ?thesis by blast
  qed
  from c1 c2 c3 c4 show ?thesis by blast
qed

text \<open>
  The claim as stated fails where the host call does not return: the promise of
  \<open>build.resolve\<close> rejects, the \<open>await\<close> throws, and \<open>resolve\<close> yields a failure, not a
  resolution. The pending entry of the request stays in the ledger.
\<close>

theorem resolve_never_throws_counterexample:
  "resolve exImports (exAdapter Bundling hostRejects) (exRequest ''lodash'') None
     = (Inl (Rejected ''The build was canceled''), Some [''lodash'' \<mapsto> Pending])"
  by (simp add: eval_defs ex_defs ledger_defs)

text \<open>
  Claim C10. When \<open>resolve\<close> returns \<open>NotFound\<close> only because the consumed ledger status
  is \<open>not_found\<close>, the host result's errors list being empty, the diagnostics of the
  returned \<open>NotFound\<close> are that host result with its empty errors list: they carry no
  message, and they are not what \<open>notFoundResponse\<close> gives for the same request.
\<close>

theorem resolve_not_found_from_ledger:
  assumes "contextResolve this (specifier request) (resolveOptions imports this request)
             (requestStatus g (specifier request)) = (Inr r, g2)"
    and "readStatus g2 (specifier request) = (StatusNotFound, g3)"
    and "ResolveResult.errors r = []"
  shows "resolve imports this request g = (Inr (NotFound (asOnResolveResult r)), g3)
         \<and> OnResolveResult.errors (asOnResolveResult r) = Some []
         \<and> NotFound (asOnResolveResult r) \<noteq> notFoundResponse request"
  using resolve_fulfilled [OF assms(1) assms(2)] assms(3)
  by (simp add: asOnResolveResult_def notFoundResponse_def)

theorem resolve_not_found_from_ledger_witness:
  "contextResolve (exAdapter Bundling hostExternalMissing) (specifier (exRequest ''lodash''))
     (resolveOptions exImports (exAdapter Bundling hostExternalMissing) (exRequest ''lodash''))
     (requestStatus None (specifier (exRequest ''lodash'')))
   = (Inr (exHostResult ''lodash'' True),
      writeStatus (requestStatus None ''lodash'') ''lodash'' StatusNotFound)
   \<and> readStatus (writeStatus (requestStatus None ''lodash'') ''lodash'' StatusNotFound)
       (specifier (exRequest ''lodash''))
     = (StatusNotFound, Some Map.empty)
   \<and> ResolveResult.errors (exHostResult ''lodash'' True) = []
   \<and> resolve exImports (exAdapter Bundling hostExternalMissing) (exRequest ''lodash'') None
     = (Inr (NotFound (asOnResolveResult (exHostResult ''lodash'' True))), Some Map.empty)
   \<and> OnResolveResult.errors (asOnResolveResult (exHostResult ''lodash'' True)) = Some []
   \<and> (NotFound (asOnResolveResult (exHostResult ''lodash'' True)) :: unit Resolution)
       \<noteq> notFoundResponse (exRequest ''lodash'')"
proof -
  have host:
    "contextResolve (exAdapter Bundling hostExternalMissing) (specifier (exRequest ''lodash''))
       (resolveOptions exImports (exAdapter Bundling hostExternalMissing) (exRequest ''lodash''))
       (requestStatus None (specifier (exRequest ''lodash'')))
     = (Inr (exHostResult ''lodash'' True),
        writeStatus (requestStatus None ''lodash'') ''lodash'' StatusNotFound)"
    by (simp add: ex_defs)
  have consumed:
    "readStatus (writeStatus (requestStatus None ''lodash'') ''lodash'' StatusNotFound)
       (specifier (exRequest ''lodash''))
     = (StatusNotFound, Some Map.empty)"
    by (simp add: ex_defs ledger_defs)
  have no_errors: "ResolveResult.errors (exHostResult ''lodash'' True) = []"
    by (simp add: exHostResult_def)
  from resolve_not_found_from_ledger [OF host consumed no_errors] host consumed no_errors
  show ?thesis by blast
qed

subsection \<open>resolve: the reported filename\<close>

text \<open>
  Claim C1. For every \<open>resolve\<close> call whose consumed ledger status is \<open>Found F\<close>, whose
  host result has an empty errors list and is marked external, and for which the
  app-boundary policy of the bundling phase does not fire, \<open>resolve\<close> returns a \<open>Found\<close>
  resolution with filename \<open>F\<close>, the path the ledger recorded; in every other case that
  is neither not-found nor the boundary case (the status is \<open>Pending\<close>, or the host result
  is not external) the filename is the host result's path. The result is the host result.
\<close>

theorem resolve_filename_disambiguation:
  assumes "contextResolve this (specifier request) (resolveOptions imports this request)
             (requestStatus g (specifier request)) = (Inr r, g2)"
    and "readStatus g2 (specifier request) = (status, g3)"
    and "ResolveResult.errors r = []"
    and "status \<noteq> StatusNotFound"
    and "\<not> appBoundaryFires this r"
  shows "(status = StatusFound F \<and> ResolveResult.external r
            \<longrightarrow> resolve imports this request g
                  = (Inr (Found F (asOnResolveResult r) None), g3))
         \<and> (status = Pending \<or> \<not> ResolveResult.external r
            \<longrightarrow> resolve imports this request g
                  = (Inr (Found (ResolveResult.path r) (asOnResolveResult r) None), g3))"
proof -
  from assms(5) have "(if phase this = Bundling then bundlingBlock imports this request r
                        else None) = None"
    using bundlingBlock_Some_iff [of this "imports" request r] by auto
  with resolve_fulfilled [OF assms(1) assms(2)] assms(3) assms(4)
  show ?thesis by (cases status) auto
qed

text \<open>
  A dependency the host externalized while the cooperating resolver recorded its file,
  in the bundling phase; and an app file the host resolved itself, in the other phase.
\<close>

theorem resolve_filename_disambiguation_witness:
  "readStatus (writeStatus (requestStatus None ''lodash'') ''lodash''
                 (StatusFound ''/app/node_modules/lodash/index.js''))
       (specifier (exRequest ''lodash''))
     = (StatusFound ''/app/node_modules/lodash/index.js'', Some Map.empty)
   \<and> ResolveResult.external (exHostResult ''lodash'' True)
   \<and> \<not> appBoundaryFires (exAdapter Bundling hostExternalFound) (exHostResult ''lodash'' True)
   \<and> resolve exImports (exAdapter Bundling hostExternalFound) (exRequest ''lodash'') None
     = (Inr (Found ''/app/node_modules/lodash/index.js''
               (asOnResolveResult (exHostResult ''lodash'' True)) None), Some Map.empty)
   \<and> \<not> ResolveResult.external (exHostResult ''/app/widgets/button.js'' False)
   \<and> \<not> appBoundaryFires (exAdapter Other hostAppFile)
         (exHostResult ''/app/widgets/button.js'' False)
   \<and> resolve exImports (exAdapter Other hostAppFile) (exRequest ''./widgets/button'') None
     = (Inr (Found ''/app/widgets/button.js''
               (asOnResolveResult (exHostResult ''/app/widgets/button.js'' False)) None),
        Some Map.empty)"
proof -
  have host1:
    "contextResolve (exAdapter Bundling hostExternalFound) (specifier (exRequest ''lodash''))
       (resolveOptions exImports (exAdapter Bundling hostExternalFound) (exRequest ''lodash''))
       (requestStatus None (specifier (exRequest ''lodash'')))
     = (Inr (exHostResult ''lodash'' True),
        writeStatus (requestStatus None ''lodash'') ''lodash''
          (StatusFound ''/app/node_modules/lodash/index.js''))"
    by (simp add: ex_defs)
  have consumed1:
    "readStatus (writeStatus (requestStatus None ''lodash'') ''lodash''
                   (StatusFound ''/app/node_modules/lodash/index.js''))
       (specifier (exRequest ''lodash''))
     = (StatusFound ''/app/node_modules/lodash/index.js'', Some Map.empty)"
    by (simp add: ex_defs ledger_defs)
  have clean1: "ResolveResult.errors (exHostResult ''lodash'' True) = []"
    and external1: "ResolveResult.external (exHostResult ''lodash'' True)"
    by (simp_all add: exHostResult_def)
  have quiet1:
    "\<not> appBoundaryFires (exAdapter Bundling hostExternalFound) (exHostResult ''lodash'' True)"
    by (simp add: appBoundaryFires_def ex_defs)
  have host2:
    "contextResolve (exAdapter Other hostAppFile) (specifier (exRequest ''./widgets/button''))
       (resolveOptions exImports (exAdapter Other hostAppFile) (exRequest ''./widgets/button''))
       (requestStatus None (specifier (exRequest ''./widgets/button'')))
     = (Inr (exHostResult ''/app/widgets/button.js'' False),
        requestStatus None ''./widgets/button'')"
    by (simp add: ex_defs)
  have consumed2:
    "readStatus (requestStatus None ''./widgets/button'')
       (specifier (exRequest ''./widgets/button''))
     = (Pending, Some Map.empty)"
    by (simp add: ex_defs ledger_defs)
  have clean2: "ResolveResult.errors (exHostResult ''/app/widgets/button.js'' False) = []"
    and internal2: "\<not> ResolveResult.external (exHostResult ''/app/widgets/button.js'' False)"
    by (simp_all add: exHostResult_def)
  have quiet2:
    "\<not> appBoundaryFires (exAdapter Other hostAppFile)
         (exHostResult ''/app/widgets/button.js'' False)"
    by (simp add: appBoundaryFires_def ex_defs)
  from resolve_filename_disambiguation
         [OF host1 consumed1 clean1 _ quiet1, of "''/app/node_modules/lodash/index.js''"]
       external1
  have r1:
    "resolve exImports (exAdapter Bundling hostExternalFound) (exRequest ''lodash'') None
     = (Inr (Found ''/app/node_modules/lodash/index.js''
               (asOnResolveResult (exHostResult ''lodash'' True)) None), Some Map.empty)"
    by simp
  from resolve_filename_disambiguation [OF host2 consumed2 clean2 _ quiet2] internal2
  have r2:
    "resolve exImports (exAdapter Other hostAppFile) (exRequest ''./widgets/button'') None
     = (Inr (Found ''/app/widgets/button.js''
               (asOnResolveResult (exHostResult ''/app/widgets/button.js'' False)) None),
        Some Map.empty)"
    by (simp add: exHostResult_fields)
  from consumed1 external1 quiet1 r1 internal2 quiet2 r2 show ?thesis by blast
qed

subsection \<open>resolve: the app-boundary policy\<close>

text \<open>
  Claim C2, as amended. For every \<open>resolve\<close> call with an error-free host result and a
  consumed ledger status other than \<open>not_found\<close>, the app-boundary policy fires
  (\<open>resolve\<close> returns the externalized \<open>Found\<close>) if and only if the phase is \<open>bundling\<close>,
  the owning package of the host-resolved path has the cache's \<open>appRoot\<close> as root, and
  the host result's namespace is \<open>file\<close> or begins with \<open>embroider-\<close>. When it fires, the
  returned resolution is the one the bundling block computes from the request and the
  owner alone (the ledger's filename plays no part), its \<open>result.external\<close> is true and
  its \<open>result.path\<close> is the returned filename. When the phase is \<open>other\<close>, \<open>resolve\<close>
  returns the host result itself.
\<close>

theorem resolve_app_boundary:
  assumes "contextResolve this (specifier request) (resolveOptions imports this request)
             (requestStatus g (specifier request)) = (Inr r, g2)"
    and "readStatus g2 (specifier request) = (status, g3)"
    and "ResolveResult.errors r = []"
    and "status \<noteq> StatusNotFound"
  shows "((\<exists>n. resolve imports this request g
                 = (Inr (Found n (externalizedResult n) None), g3))
            = appBoundaryFires this r)
         \<and> (appBoundaryFires this r \<longrightarrow>
              (\<exists>n returned.
                 bundlingBlock imports this request r = Some returned
                 \<and> resolve imports this request g = (Inr returned, g3)
                 \<and> filename returned = n
                 \<and> OnResolveResult.external (result returned) = Some True
                 \<and> OnResolveResult.path (result returned) = Some n))
         \<and> (phase this = Other \<longrightarrow>
              (\<exists>reported. resolve imports this request g
                 = (Inr (Found reported (asOnResolveResult r) None), g3)))"
proof -
  note shape = resolve_fulfilled [OF assms(1) assms(2)]
  have fires: "\<exists>n. bundlingBlock imports this request r
                       = Some (Found n (externalizedResult n) None)
                     \<and> resolve imports this request g
                       = (Inr (Found n (externalizedResult n) None), g3)"
    if "appBoundaryFires this r"
  proof -
    from that have bundling: "phase this = Bundling"
      and "bundlingBlock imports this request r \<noteq> None"
      using bundlingBlock_Some_iff [of this "imports" request r] by auto
    then obtain returned where some: "bundlingBlock imports this request r = Some returned"
      by auto
    then obtain n where "returned = Found n (externalizedResult n) None"
      using bundlingBlock_shape by blast
    with shape some bundling assms(3) assms(4) show ?thesis by simp
  qed
  have quiet: "\<exists>reported. resolve imports this request g
                 = (Inr (Found reported (asOnResolveResult r) None), g3)"
    if "\<not> appBoundaryFires this r"
  proof -
    from that have "(if phase this = Bundling then bundlingBlock imports this request r
                      else None) = None"
      using bundlingBlock_Some_iff [of this "imports" request r] by auto
    with shape assms(3) assms(4) show ?thesis by simp
  qed
  have iff: "(\<exists>n. resolve imports this request g
                 = (Inr (Found n (externalizedResult n) None), g3))
            = appBoundaryFires this r"
  proof (cases "appBoundaryFires this r")
    case True
    with fires show ?thesis by blast
  next
    case False
    with quiet obtain reported where
      "resolve imports this request g = (Inr (Found reported (asOnResolveResult r) None), g3)"
      by blast
    with False show ?thesis
      by (simp add: asOnResolveResult_not_externalized)
  qed
  have when_fires: "\<exists>n returned.
                 bundlingBlock imports this request r = Some returned
                 \<and> resolve imports this request g = (Inr returned, g3)
                 \<and> filename returned = n
                 \<and> OnResolveResult.external (result returned) = Some True
                 \<and> OnResolveResult.path (result returned) = Some n"
    if "appBoundaryFires this r"
  proof -
    from fires [OF that] obtain n where
      "bundlingBlock imports this request r = Some (Found n (externalizedResult n) None)"
      "resolve imports this request g = (Inr (Found n (externalizedResult n) None), g3)"
      by blast
    then show ?thesis by (simp add: externalizedResult_def)
  qed
  have other: "\<exists>reported. resolve imports this request g
                 = (Inr (Found reported (asOnResolveResult r) None), g3)"
    if "phase this = Other"
  proof -
    from that have "\<not> appBoundaryFires this r"
      by (simp add: appBoundaryFires_def)
    then show ?thesis by (rule quiet)
  qed
  from iff when_fires other show ?thesis by blast
qed

text \<open>
  An addon's request \<open>./widgets/button\<close> that the host resolves into the app: externalized
  in the bundling phase, passed through in the other phase.
\<close>

theorem resolve_app_boundary_witness:
  "appBoundaryFires (exAdapter Bundling hostAppFile)
     (exHostResult ''/app/widgets/button.js'' False)
   \<and> resolve exImports (exAdapter Bundling hostAppFile) (exRequest ''./widgets/button'') None
     = (Inr (Found ''my-app/widgets/button'' (externalizedResult ''my-app/widgets/button'') None),
        Some Map.empty)
   \<and> phase (exAdapter Other hostAppFile) = Other
   \<and> (\<exists>reported.
        resolve exImports (exAdapter Other hostAppFile) (exRequest ''./widgets/button'') None
        = (Inr (Found reported
                  (asOnResolveResult (exHostResult ''/app/widgets/button.js'' False)) None),
           Some Map.empty))"
proof -
  have host: "contextResolve (exAdapter ph hostAppFile) (specifier (exRequest ''./widgets/button''))
       (resolveOptions exImports (exAdapter ph hostAppFile) (exRequest ''./widgets/button''))
       (requestStatus None (specifier (exRequest ''./widgets/button'')))
     = (Inr (exHostResult ''/app/widgets/button.js'' False),
        requestStatus None ''./widgets/button'')" for ph
    by (simp add: ex_defs)
  have consumed:
    "readStatus (requestStatus None ''./widgets/button'')
       (specifier (exRequest ''./widgets/button''))
     = (Pending, Some Map.empty)"
    by (simp add: ex_defs ledger_defs)
  have clean: "ResolveResult.errors (exHostResult ''/app/widgets/button.js'' False) = []"
    by (simp add: exHostResult_fields)
  have fires: "appBoundaryFires (exAdapter Bundling hostAppFile)
     (exHostResult ''/app/widgets/button.js'' False)"
    by (simp add: appBoundaryFires_def ex_defs)
  have other: "phase (exAdapter Other hostAppFile) = Other"
    by (simp add: exAdapter_def)
  from resolve_app_boundary [OF host [of Bundling] consumed clean] fires
  obtain returned where
    "bundlingBlock exImports (exAdapter Bundling hostAppFile) (exRequest ''./widgets/button'')
       (exHostResult ''/app/widgets/button.js'' False) = Some returned"
    and "resolve exImports (exAdapter Bundling hostAppFile) (exRequest ''./widgets/button'') None
       = (Inr returned, Some Map.empty)"
    by auto
  then have r1:
    "resolve exImports (exAdapter Bundling hostAppFile) (exRequest ''./widgets/button'') None
     = (Inr (Found ''my-app/widgets/button'' (externalizedResult ''my-app/widgets/button'') None),
        Some Map.empty)"
    by (simp add: bundlingBlock_def truthy_def orElse_def Let_def ex_defs)
  from resolve_app_boundary [OF host [of Other] consumed clean] other
  have r2: "\<exists>reported.
        resolve exImports (exAdapter Other hostAppFile) (exRequest ''./widgets/button'') None
        = (Inr (Found reported
                  (asOnResolveResult (exHostResult ''/app/widgets/button.js'' False)) None),
           Some Map.empty)"
    by auto
  from fires r1 other r2 show ?thesis by blast
qed

text \<open>
  The claim as stated fails where the host result is error-free and the ledger says
  \<open>not_found\<close>: the phase is \<open>bundling\<close>, the path belongs to the app and the namespace is
  \<open>file\<close>, yet \<open>resolve\<close> returns \<open>NotFound\<close> before the policy is looked at. Here an addon
  asks for \<open>/app/missing.js\<close>, which does not exist; the host externalizes the specifier.
\<close>

theorem resolve_app_boundary_counterexample:
  "ResolveResult.errors (exHostResult ''/app/missing.js'' True) = []
   \<and> appBoundaryFires (exAdapter Bundling hostExternalMissing)
       (exHostResult ''/app/missing.js'' True)
   \<and> contextResolve (exAdapter Bundling hostExternalMissing)
       (specifier (exRequest ''/app/missing.js''))
       (resolveOptions exImports (exAdapter Bundling hostExternalMissing)
          (exRequest ''/app/missing.js''))
       (requestStatus None (specifier (exRequest ''/app/missing.js'')))
     = (Inr (exHostResult ''/app/missing.js'' True),
        writeStatus (requestStatus None ''/app/missing.js'') ''/app/missing.js'' StatusNotFound)
   \<and> resolve exImports (exAdapter Bundling hostExternalMissing) (exRequest ''/app/missing.js'')
       None
     = (Inr (NotFound (asOnResolveResult (exHostResult ''/app/missing.js'' True))),
        Some Map.empty)"
  by (simp add: eval_defs ex_defs ledger_defs)

text \<open>
  Claim C6. When the app-boundary policy fires and the request's specifier has no
  package name (\<open>packageName\<close> gives \<open>undefined\<close> or the empty string: a relative path),
  the externalized name is what \<open>externalName\<close> yields for the owning package's manifest
  and the specifier; when that lookup yields nothing (\<open>undefined\<close> or the empty string),
  the externalized name is the specifier unchanged; when the specifier has a package
  name, it is the externalized name unchanged.
\<close>

theorem resolve_externalized_name:
  assumes "contextResolve this (specifier request) (resolveOptions imports this request)
             (requestStatus g (specifier request)) = (Inr r, g2)"
    and "readStatus g2 (specifier request) = (status, g3)"
    and "ResolveResult.errors r = []"
    and "status \<noteq> StatusNotFound"
    and "appBoundaryFires this r"
    and "ownerOfFile (packageCache this) (ResolveResult.path r) = Some pkg"
  shows "(\<not> truthy (packageName imports (specifier request))
            \<and> externalName imports (packageJSON pkg) (specifier request) = Some looked
            \<and> looked \<noteq> []
            \<longrightarrow> resolve imports this request g
                  = (Inr (Found looked (externalizedResult looked) None), g3))
         \<and> (\<not> truthy (packageName imports (specifier request))
            \<and> \<not> truthy (externalName imports (packageJSON pkg) (specifier request))
            \<longrightarrow> resolve imports this request g
                  = (Inr (Found (specifier request) (externalizedResult (specifier request))
                            None), g3))
         \<and> (truthy (packageName imports (specifier request))
            \<longrightarrow> resolve imports this request g
                  = (Inr (Found (specifier request) (externalizedResult (specifier request))
                            None), g3))"
proof -
  from assms(5) have "phase this = Bundling"
    by (simp add: appBoundaryFires_def)
  with resolve_fulfilled [OF assms(1) assms(2)] assms(3) assms(4)
    bundlingBlock_fires [OF assms(6) assms(5), of "imports" request]
  show ?thesis
    by (auto simp add: truthy_def orElse_def split: option.splits)
qed

text \<open>
  Three requests that the host resolves to \<open>/app/widgets/button.js\<close> in the bundling
  phase: \<open>./widgets/button\<close>, for which the lookup yields \<open>my-app/widgets/button\<close>;
  \<open>../app/widgets/button\<close>, for which it yields nothing; and the package-qualified
  \<open>my-app/widgets/button\<close>.
\<close>

theorem resolve_externalized_name_witness:
  "appBoundaryFires (exAdapter Bundling hostAppFile)
     (exHostResult ''/app/widgets/button.js'' False)
   \<and> \<not> truthy (packageName exImports (specifier (exRequest ''./widgets/button'')))
   \<and> externalName exImports (packageJSON exAppPackage) (specifier (exRequest ''./widgets/button''))
       = Some ''my-app/widgets/button''
   \<and> resolve exImports (exAdapter Bundling hostAppFile) (exRequest ''./widgets/button'') None
     = (Inr (Found ''my-app/widgets/button'' (externalizedResult ''my-app/widgets/button'') None),
        Some Map.empty)
   \<and> \<not> truthy (packageName exImports (specifier (exRequest ''../app/widgets/button'')))
   \<and> \<not> truthy (externalName exImports (packageJSON exAppPackage) (specifier (exRequest ''../app/widgets/button'')))
   \<and> resolve exImports (exAdapter Bundling hostAppFile) (exRequest ''../app/widgets/button'') None
     = (Inr (Found ''../app/widgets/button'' (externalizedResult ''../app/widgets/button'') None),
        Some Map.empty)
   \<and> truthy (packageName exImports (specifier (exRequest ''my-app/widgets/button'')))
   \<and> resolve exImports (exAdapter Bundling hostAppFile) (exRequest ''my-app/widgets/button'') None
     = (Inr (Found ''my-app/widgets/button'' (externalizedResult ''my-app/widgets/button'') None),
        Some Map.empty)"
proof -
  have host: "contextResolve (exAdapter Bundling hostAppFile) (specifier (exRequest spec))
       (resolveOptions exImports (exAdapter Bundling hostAppFile) (exRequest spec))
       (requestStatus None (specifier (exRequest spec)))
     = (Inr (exHostResult ''/app/widgets/button.js'' False), requestStatus None spec)" for spec
    by (simp add: ex_defs)
  have consumed:
    "readStatus (requestStatus None spec) (specifier (exRequest spec))
     = (Pending, Some Map.empty)" for spec
    by (simp add: ex_defs ledger_defs)
  have clean: "ResolveResult.errors (exHostResult ''/app/widgets/button.js'' False) = []"
    by (simp add: exHostResult_fields)
  have fires: "appBoundaryFires (exAdapter Bundling hostAppFile)
     (exHostResult ''/app/widgets/button.js'' False)"
    by (simp add: appBoundaryFires_def ex_defs)
  have owner: "ownerOfFile (packageCache (exAdapter Bundling hostAppFile))
       (ResolveResult.path (exHostResult ''/app/widgets/button.js'' False))
     = Some exAppPackage"
    by (simp add: exAdapter_def exCache_def exOwnerOfFile_def exHostResult_fields)
  have pending: "Pending \<noteq> StatusNotFound"
    by simp
  note at_button = resolve_externalized_name [OF host consumed clean pending fires owner]
  have relative: "\<not> truthy (packageName exImports (specifier (exRequest ''./widgets/button'')))"
    and looked: "externalName exImports (packageJSON exAppPackage) (specifier (exRequest ''./widgets/button''))
       = Some ''my-app/widgets/button''"
    by (simp_all add: truthy_def ex_defs)
  have outside: "\<not> truthy (packageName exImports (specifier (exRequest ''../app/widgets/button'')))"
    and unmatched: "\<not> truthy (externalName exImports (packageJSON exAppPackage)
                       (specifier (exRequest ''../app/widgets/button'')))"
    by (simp_all add: truthy_def ex_defs)
  have named: "truthy (packageName exImports (specifier (exRequest ''my-app/widgets/button'')))"
    by (simp add: truthy_def ex_defs)
  have nonempty: "''my-app/widgets/button'' \<noteq> []"
    by simp
  from at_button [of "''./widgets/button''" "''my-app/widgets/button''"] relative looked nonempty
  have r1: "resolve exImports (exAdapter Bundling hostAppFile) (exRequest ''./widgets/button'') None
     = (Inr (Found ''my-app/widgets/button'' (externalizedResult ''my-app/widgets/button'') None),
        Some Map.empty)"
    by blast
  from at_button [of "''../app/widgets/button''" "[]"] outside unmatched
  have "resolve exImports (exAdapter Bundling hostAppFile) (exRequest ''../app/widgets/button'') None
     = (Inr (Found (specifier (exRequest ''../app/widgets/button''))
               (externalizedResult (specifier (exRequest ''../app/widgets/button''))) None),
        Some Map.empty)"
    by blast
  then have r2:
    "resolve exImports (exAdapter Bundling hostAppFile) (exRequest ''../app/widgets/button'') None
     = (Inr (Found ''../app/widgets/button'' (externalizedResult ''../app/widgets/button'') None),
        Some Map.empty)"
    by (simp add: specifier_exRequest)
  from at_button [of "''my-app/widgets/button''" "[]"] named
  have "resolve exImports (exAdapter Bundling hostAppFile) (exRequest ''my-app/widgets/button'') None
     = (Inr (Found (specifier (exRequest ''my-app/widgets/button''))
               (externalizedResult (specifier (exRequest ''my-app/widgets/button''))) None),
        Some Map.empty)"
    by blast
  then have r3:
    "resolve exImports (exAdapter Bundling hostAppFile) (exRequest ''my-app/widgets/button'') None
     = (Inr (Found ''my-app/widgets/button'' (externalizedResult ''my-app/widgets/button'') None),
        Some Map.empty)"
    by (simp add: specifier_exRequest)
  from fires relative looked r1 outside unmatched r2 named r3 show ?thesis by blast
qed

text \<open>
  Claim C7, as amended. For every \<open>resolve\<close> call in phase \<open>bundling\<close> where the
  app-boundary policy fires, the filename of the returned externalized \<open>Found\<close>
  resolution is the externalized name: the name the externalized-name lookup yields when
  the specifier has no package name and the lookup yields one, and the request's
  specifier otherwise. It equals the raw on-disk path the host resolver produced exactly
  when that chosen name is the path (the looked-up name where the lookup is used, the
  specifier where it is not), and differs from it in every other case.
\<close>

theorem resolve_boundary_filename:
  assumes "contextResolve this (specifier request) (resolveOptions imports this request)
             (requestStatus g (specifier request)) = (Inr r, g2)"
    and "readStatus g2 (specifier request) = (status, g3)"
    and "ResolveResult.errors r = []"
    and "status \<noteq> StatusNotFound"
    and "appBoundaryFires this r"
    and "ownerOfFile (packageCache this) (ResolveResult.path r) = Some pkg"
  shows "\<exists>n. resolve imports this request g = (Inr (Found n (externalizedResult n) None), g3)
             \<and> Some n = (if \<not> truthy (packageName imports (specifier request))
                             \<and> truthy (externalName imports (packageJSON pkg) (specifier request))
                          then externalName imports (packageJSON pkg) (specifier request)
                          else Some (specifier request))
             \<and> ((n = ResolveResult.path r)
                  = (if \<not> truthy (packageName imports (specifier request))
                        \<and> truthy (externalName imports (packageJSON pkg) (specifier request))
                     then externalName imports (packageJSON pkg) (specifier request)
                            = Some (ResolveResult.path r)
                     else specifier request = ResolveResult.path r))"
proof -
  from assms(5) have "phase this = Bundling"
    by (simp add: appBoundaryFires_def)
  with resolve_fulfilled [OF assms(1) assms(2)] assms(3) assms(4)
    bundlingBlock_fires [OF assms(6) assms(5), of "imports" request]
  show ?thesis
    by (auto simp add: truthy_def orElse_def split: option.splits)
qed

text \<open>
  Two requests in the bundling phase. The relative \<open>./widgets/button\<close>, resolved by the
  host to \<open>/app/widgets/button.js\<close>, is reported as \<open>my-app/widgets/button\<close>. The absolute
  \<open>/app/app.js\<close>, resolved by the host to itself, with an app manifest that has a name
  only: the lookup joins name and path, and the file is reported as \<open>my-app/app/app.js\<close>,
  which is not the host's path although the specifier is.
\<close>

theorem resolve_boundary_filename_witness:
  "appBoundaryFires (exAdapter Bundling hostAppFile)
     (exHostResult ''/app/widgets/button.js'' False)
   \<and> resolve exImports (exAdapter Bundling hostAppFile) (exRequest ''./widgets/button'') None
     = (Inr (Found ''my-app/widgets/button'' (externalizedResult ''my-app/widgets/button'') None),
        Some Map.empty)
   \<and> ''my-app/widgets/button'' \<noteq> ResolveResult.path (exHostResult ''/app/widgets/button.js'' False)
   \<and> appBoundaryFires (exManifestAdapter exNameOnly hostSamePath)
       (exHostResult ''/app/app.js'' False)
   \<and> specifier (exRequest ''/app/app.js'') = ResolveResult.path (exHostResult ''/app/app.js'' False)
   \<and> resolve exManifestImports (exManifestAdapter exNameOnly hostSamePath)
       (exRequest ''/app/app.js'') None
     = (Inr (Found ''my-app/app/app.js'' (externalizedResult ''my-app/app/app.js'') None),
        Some Map.empty)
   \<and> ''my-app/app/app.js'' \<noteq> ResolveResult.path (exHostResult ''/app/app.js'' False)"
proof -
  have pending: "Pending \<noteq> StatusNotFound"
    by simp
  have host1: "contextResolve (exAdapter Bundling hostAppFile)
       (specifier (exRequest ''./widgets/button''))
       (resolveOptions exImports (exAdapter Bundling hostAppFile) (exRequest ''./widgets/button''))
       (requestStatus None (specifier (exRequest ''./widgets/button'')))
     = (Inr (exHostResult ''/app/widgets/button.js'' False),
        requestStatus None ''./widgets/button'')"
    by (simp add: ex_defs)
  have consumed1:
    "readStatus (requestStatus None ''./widgets/button'')
       (specifier (exRequest ''./widgets/button''))
     = (Pending, Some Map.empty)"
    by (simp add: ex_defs ledger_defs)
  have clean1: "ResolveResult.errors (exHostResult ''/app/widgets/button.js'' False) = []"
    by (simp add: exHostResult_fields)
  have fires1: "appBoundaryFires (exAdapter Bundling hostAppFile)
     (exHostResult ''/app/widgets/button.js'' False)"
    by (simp add: appBoundaryFires_def ex_defs)
  have owner1: "ownerOfFile (packageCache (exAdapter Bundling hostAppFile))
       (ResolveResult.path (exHostResult ''/app/widgets/button.js'' False))
     = Some exAppPackage"
    by (simp add: exAdapter_def exCache_def exOwnerOfFile_def exHostResult_fields)
  from resolve_boundary_filename [OF host1 consumed1 clean1 pending fires1 owner1]
  have r1: "resolve exImports (exAdapter Bundling hostAppFile) (exRequest ''./widgets/button'')
        None
     = (Inr (Found ''my-app/widgets/button'' (externalizedResult ''my-app/widgets/button'') None),
        Some Map.empty)"
    by (auto simp add: truthy_def orElse_def ex_defs)
  have differs1:
    "''my-app/widgets/button'' \<noteq> ResolveResult.path (exHostResult ''/app/widgets/button.js'' False)"
    by (simp add: exHostResult_fields)
  have host2: "contextResolve (exManifestAdapter exNameOnly hostSamePath)
       (specifier (exRequest ''/app/app.js''))
       (resolveOptions exManifestImports (exManifestAdapter exNameOnly hostSamePath)
          (exRequest ''/app/app.js''))
       (requestStatus None (specifier (exRequest ''/app/app.js'')))
     = (Inr (exHostResult ''/app/app.js'' False), requestStatus None ''/app/app.js'')"
    by (simp add: exManifestAdapter_def hostSamePath_def specifier_exRequest)
  have consumed2:
    "readStatus (requestStatus None ''/app/app.js'') (specifier (exRequest ''/app/app.js''))
     = (Pending, Some Map.empty)"
    by (simp add: specifier_exRequest ledger_defs)
  have clean2: "ResolveResult.errors (exHostResult ''/app/app.js'' False) = []"
    by (simp add: exHostResult_fields)
  have fires2: "appBoundaryFires (exManifestAdapter exNameOnly hostSamePath)
       (exHostResult ''/app/app.js'' False)"
    by (simp add: appBoundaryFires_def exManifestAdapter_def exManifestCache_def
          exManifestPackage_def exHostResult_fields)
  have owner2: "ownerOfFile (packageCache (exManifestAdapter exNameOnly hostSamePath))
       (ResolveResult.path (exHostResult ''/app/app.js'' False))
     = Some (exManifestPackage exNameOnly)"
    by (simp add: exManifestAdapter_def exManifestCache_def exHostResult_fields)
  have same2:
    "specifier (exRequest ''/app/app.js'') = ResolveResult.path (exHostResult ''/app/app.js'' False)"
    by (simp add: specifier_exRequest exHostResult_fields)
  from resolve_boundary_filename [OF host2 consumed2 clean2 pending fires2 owner2]
  have r2: "resolve exManifestImports (exManifestAdapter exNameOnly hostSamePath)
       (exRequest ''/app/app.js'') None
     = (Inr (Found ''my-app/app/app.js'' (externalizedResult ''my-app/app/app.js'') None),
        Some Map.empty)"
    by (auto simp add: truthy_def orElse_def manifest_defs)
  have differs2:
    "''my-app/app/app.js'' \<noteq> ResolveResult.path (exHostResult ''/app/app.js'' False)"
    by (simp add: exHostResult_fields)
  from fires1 r1 differs1 fires2 same2 r2 differs2 show ?thesis by blast
qed

text \<open>
  The claim as stated fails where the specifier is itself the on-disk path and the
  lookup yields nothing: an addon asks for the absolute path \<open>/app/app.js\<close>, the host
  resolves it to that same path in the \<open>file\<close> namespace, \<open>packageName\<close> finds no package
  name in an absolute path, and the app's manifest has an exports table with no entry
  for the file. The externalized name, and so the returned filename, is then the raw
  path.
\<close>

theorem resolve_boundary_filename_counterexample:
  "phase (exManifestAdapter exWithExports hostSamePath) = Bundling
   \<and> appBoundaryFires (exManifestAdapter exWithExports hostSamePath)
       (exHostResult ''/app/app.js'' False)
   \<and> contextResolve (exManifestAdapter exWithExports hostSamePath)
       (specifier (exRequest ''/app/app.js''))
       (resolveOptions exManifestImports (exManifestAdapter exWithExports hostSamePath)
          (exRequest ''/app/app.js''))
       (requestStatus None (specifier (exRequest ''/app/app.js'')))
     = (Inr (exHostResult ''/app/app.js'' False), requestStatus None ''/app/app.js'')
   \<and> ResolveResult.path (exHostResult ''/app/app.js'' False) = ''/app/app.js''
   \<and> ResolveResult.namespace (exHostResult ''/app/app.js'' False) = ''file''
   \<and> packageName exManifestImports ''/app/app.js'' = None
   \<and> externalName exManifestImports exWithExports ''/app/app.js'' = None
   \<and> resolve exManifestImports (exManifestAdapter exWithExports hostSamePath)
       (exRequest ''/app/app.js'') None
     = (Inr (Found ''/app/app.js'' (externalizedResult ''/app/app.js'') None), Some Map.empty)"
  by (simp add: eval_defs manifest_defs ledger_defs)

end
